theory Spec2Isabelle
  imports Main
begin

section \<open>Python values the driver works with\<close>

text \<open>
  The driver \<^verbatim>\<open>libcloud/compute/drivers/rackspace.py\<close> is Python 2. Its strings are
  byte strings (\<^typ>\<open>string\<close>), a value that may be \<^verbatim>\<open>None\<close> is an \<^typ>\<open>'a option\<close>, and
  a \<^verbatim>\<open>dict\<close> is the list of its items in iteration order, read with \<open>dict_get\<close> and
  written with \<open>setitem\<close>; two dicts are equal when \<open>map_of\<close> agrees on them.
  Python names that start with an underscore lose it (\<^verbatim>\<open>_to_node\<close> is \<open>to_node\<close>), and a
  field whose name is a HOL constant gets a prefix.
\<close>

type_synonym ('k, 'v) dict = "('k \<times> 'v) list"

text \<open>\<^verbatim>\<open>d.get(k)\<close>: the value stored under \<open>k\<close>, or \<^verbatim>\<open>None\<close>.\<close>

fun dict_get :: "('k, 'v) dict \<Rightarrow> 'k \<Rightarrow> 'v option" where
  "dict_get [] k = None"
| "dict_get ((k', v) # d) k = (if k' = k then Some v else dict_get d k)"

text \<open>\<^verbatim>\<open>d[k] = v\<close>: an existing key keeps its place and takes the new value, a new key
  is added.\<close>

fun setitem :: "('k, 'v) dict \<Rightarrow> 'k \<Rightarrow> 'v \<Rightarrow> ('k, 'v) dict" where
  "setitem [] k v = [(k, v)]"
| "setitem ((k', v') # d) k v = (if k' = k then (k, v) # d else (k', v') # setitem d k v)"

text \<open>A dict display \<^verbatim>\<open>{k1: v1, k2: v2, ...}\<close> and \<^verbatim>\<open>dict(items)\<close> store the items
  from left to right; \<^verbatim>\<open>d.update(other)\<close> stores the items of \<open>other\<close> into \<open>d\<close>.\<close>

definition dict_update :: "('k, 'v) dict \<Rightarrow> ('k, 'v) dict \<Rightarrow> ('k, 'v) dict" where
  "dict_update d other = foldl (\<lambda>acc (k, v). setitem acc k v) d other"

definition dict_of_items :: "('k \<times> 'v) list \<Rightarrow> ('k, 'v) dict" where
  "dict_of_items its = dict_update [] its"

text \<open>\<^verbatim>\<open>not s\<close> for a value that is \<^verbatim>\<open>None\<close> or a string.\<close>

definition falsy :: "string option \<Rightarrow> bool" where
  "falsy s = (s = None \<or> s = Some [])"

text \<open>\<^verbatim>\<open>'%s' % x\<close> for a value that is \<^verbatim>\<open>None\<close> or a string, and for an integer.\<close>

definition py_str :: "string option \<Rightarrow> string" where
  "py_str s = (case s of None \<Rightarrow> ''None'' | Some x \<Rightarrow> x)"

fun str_nat :: "nat \<Rightarrow> string" where
  "str_nat n = (if n < 10 then [''0123456789'' ! n]
                else str_nat (n div 10) @ [''0123456789'' ! (n mod 10)])"

definition str_int :: "int \<Rightarrow> string" where
  "str_int i = (if i < 0 then CHR ''-'' # str_nat (nat (- i)) else str_nat (nat i))"

text \<open>\<^verbatim>\<open>sep.join(xs)\<close> and \<^verbatim>\<open>s.split(sep)\<close> for a one-character separator.\<close>

fun join :: "string \<Rightarrow> string list \<Rightarrow> string" where
  "join sep [] = []"
| "join sep [x] = x"
| "join sep (x # y # ys) = x @ sep @ join sep (y # ys)"

fun split_acc :: "char \<Rightarrow> string \<Rightarrow> string \<Rightarrow> string list" where
  "split_acc sep cur [] = [cur]"
| "split_acc sep cur (c # cs) =
     (if c = sep then cur # split_acc sep [] cs else split_acc sep (cur @ [c]) cs)"

definition split :: "char \<Rightarrow> string \<Rightarrow> string list" where
  "split sep s = split_acc sep [] s"

text \<open>\<^verbatim>\<open>s.lower()\<close> on a byte string: the letters A to Z move to a to z.\<close>

definition lower_char :: "char \<Rightarrow> char" where
  "lower_char c =
     (case dict_get (zip ''ABCDEFGHIJKLMNOPQRSTUVWXYZ'' ''abcdefghijklmnopqrstuvwxyz'') c of
        None \<Rightarrow> c
      | Some l \<Rightarrow> l)"

definition lower :: "string \<Rightarrow> string" where
  "lower s = map lower_char s"

text \<open>\<^verbatim>\<open>s.find(sub)\<close>: the index of the first occurrence of \<open>sub\<close> in \<open>s\<close>, or \<open>-1\<close>.\<close>

fun find_from :: "nat \<Rightarrow> string \<Rightarrow> string \<Rightarrow> int" where
  "find_from i [] sub = (if sub = [] then int i else - 1)"
| "find_from i (c # cs) sub =
     (if take (length sub) (c # cs) = sub then int i else find_from (Suc i) cs sub)"

definition py_find :: "string \<Rightarrow> string \<Rightarrow> int" where
  "py_find s sub = find_from 0 s sub"

section \<open>ElementTree elements\<close>

text \<open>
  An \<^verbatim>\<open>xml.etree.ElementTree\<close> element: its tag, its attribute dict, its text and its
  children. An attribute value is whatever the caller stored, so it may be \<^verbatim>\<open>None\<close>
  in an element the driver builds; \<open>el_get\<close> is \<^verbatim>\<open>el.get(key)\<close>.
\<close>

datatype element =
  Element (tag: string) (attrib: "(string, string option) dict") (el_text: "string option")
    (children: "element list")

definition el_get :: "element \<Rightarrow> string \<Rightarrow> string option" where
  "el_get el key = (case dict_get (attrib el) key of None \<Rightarrow> None | Some v \<Rightarrow> v)"

text \<open>\<^verbatim>\<open>ET.SubElement(parent, tag, attrib)\<close> followed by \<^verbatim>\<open>child.text = t\<close>: the parent
  with the new child appended.\<close>

definition SubElement :: "element \<Rightarrow> string \<Rightarrow> (string, string option) dict \<Rightarrow> string option \<Rightarrow> element" where
  "SubElement parent t a x =
     Element (tag parent) (attrib parent) (el_text parent) (children parent @ [Element t a x []])"

text \<open>\<^verbatim>\<open>el.getiterator()\<close>: the element and all its descendants in document order.\<close>

fun getiterator :: "element \<Rightarrow> element list" where
  "getiterator (Element t a x cs) = Element t a x cs # concat (map getiterator cs)"

text \<open>
  \<^verbatim>\<open>el.findall(path)\<close> for the paths the driver uses, which are tag names separated by a
  slash: ElementTree cuts the path at every slash outside a \<^verbatim>\<open>{namespace}\<close> prefix and
  each step selects, in document order, the children with that tag.
\<close>

fun path_steps :: "bool \<Rightarrow> string \<Rightarrow> string \<Rightarrow> string list" where
  "path_steps b cur [] = [cur]"
| "path_steps b cur (c # cs) =
     (if c = CHR ''{'' then path_steps True (cur @ [c]) cs
      else if c = CHR ''}'' then path_steps False (cur @ [c]) cs
      else if c = CHR ''/'' \<and> \<not> b then cur # path_steps False [] cs
      else path_steps b (cur @ [c]) cs)"

definition select_step :: "element list \<Rightarrow> string \<Rightarrow> element list" where
  "select_step els t = concat (map (\<lambda>e. filter (\<lambda>c. tag c = t) (children e)) els)"

definition findall :: "element \<Rightarrow> string \<Rightarrow> element list" where
  "findall el path = foldl select_step [el] (path_steps False [] path)"

text \<open>
  \<^verbatim>\<open>ET.tostring(el)\<close> raises \<^verbatim>\<open>TypeError\<close> on an attribute value that is not a string.
  The text it renders is ElementTree's business: the payload of a request is kept as the
  tree that was rendered.
\<close>

fun serialisable :: "element \<Rightarrow> bool" where
  "serialisable (Element t a x cs) =
     (list_all (\<lambda>kv. snd kv \<noteq> None) a \<and> list_all serialisable cs)"

section \<open>Exceptions\<close>

text \<open>
  The exceptions of the modelled code. \<open>MalformedResponseError msg body driver\<close> carries
  the message, the offending body and the driver; \<open>TransportError\<close> stands for whatever
  the connection raises.
\<close>

datatype exn =
  MalformedResponseError string string string
  | TypeError
  | AttributeError
  | KeyError string
  | TransportError string

section \<open>Constants\<close>

definition NAMESPACE :: string where
  "NAMESPACE = ''http://docs.rackspacecloud.com/servers/api/v1.0''"

text \<open>\<^verbatim>\<open>libcloud.compute.types.NodeState\<close>.\<close>

datatype NodeState = RUNNING | REBOOTING | TERMINATED | PENDING | UNKNOWN

text \<open>The display of \<^verbatim>\<open>RackspaceNodeDriver.NODE_STATE_MAP\<close>, with \<^verbatim>\<open>'REBUILD'\<close> twice as
  in the source.\<close>

definition NODE_STATE_MAP :: "(string, NodeState) dict" where
  "NODE_STATE_MAP = dict_of_items
     [(''BUILD'', PENDING),
      (''REBUILD'', PENDING),
      (''ACTIVE'', RUNNING),
      (''SUSPENDED'', TERMINATED),
      (''QUEUE_RESIZE'', PENDING),
      (''PREP_RESIZE'', PENDING),
      (''VERIFY_RESIZE'', RUNNING),
      (''PASSWORD'', PENDING),
      (''RESCUE'', PENDING),
      (''REBUILD'', PENDING),
      (''REBOOT'', REBOOTING),
      (''HARD_REBOOT'', REBOOTING),
      (''SHARE_IP'', PENDING),
      (''SHARE_IP_NO_CONFIG'', PENDING),
      (''DELETE_IP'', PENDING),
      (''UNKNOWN'', UNKNOWN)]"

text \<open>\<^verbatim>\<open>self.NODE_STATE_MAP.get(el.get('status'), NodeState.UNKNOWN)\<close> in \<^verbatim>\<open>_to_node\<close>:
  a missing status attribute is the key \<^verbatim>\<open>None\<close>, which the map does not hold.\<close>

definition node_state_of :: "string option \<Rightarrow> NodeState" where
  "node_state_of status =
     (case status of
        None \<Rightarrow> UNKNOWN
      | Some s \<Rightarrow> (case dict_get NODE_STATE_MAP s of None \<Rightarrow> UNKNOWN | Some st \<Rightarrow> st))"

section \<open>Responses\<close>

text \<open>
  What \<^verbatim>\<open>parse_body\<close> returns: \<^verbatim>\<open>None\<close> for an empty body, the parsed tree, or (in the
  OpenStack variant) the body as it came.
\<close>

datatype parsed = NoContent | Tree element | Raw string

text \<open>
  A response as the \<^verbatim>\<open>Response\<close> classes see it: the status code, the reason
  (\<^verbatim>\<open>self.error\<close>), the header dict, the body, and \<^verbatim>\<open>self.object\<close>, where the base class
  keeps the decoded body for the driver.
\<close>

record Response =
  status :: int
  reason :: string
  headers :: "(string, string) dict"
  body :: string
  object :: parsed

text \<open>
  \<^verbatim>\<open>ET.XML\<close> is a parameter \<open>XML\<close> of the functions that call it: \<open>None\<close> stands for any
  exception it raises, since the callers catch every exception alike.
\<close>

type_synonym xml_parser = "string \<Rightarrow> element option"

definition success :: "Response \<Rightarrow> bool" where
  "success r = (let i = status r in i \<ge> 200 \<and> i \<le> 299)"

definition parse_body :: "xml_parser \<Rightarrow> Response \<Rightarrow> exn + parsed" where
  "parse_body XML r =
     (if body r = [] then Inr NoContent
      else case XML (body r) of
             None \<Rightarrow> Inl (MalformedResponseError ''Failed to parse XML'' (body r) ''RackspaceNodeDriver'')
           | Some b \<Rightarrow> Inr (Tree b))"

text \<open>
  \<^verbatim>\<open>RackspaceResponse.parse_error\<close>. The second \<^verbatim>\<open>try\<close> of the source joins strings and
  cannot raise, so its \<^verbatim>\<open>except ExpatError\<close> branch (\<^verbatim>\<open>text = self.body\<close>) is never
  taken and has no counterpart here.
\<close>

definition parse_error :: "xml_parser \<Rightarrow> Response \<Rightarrow> exn + string" where
  "parse_error XML r =
     (case XML (body r) of
        None \<Rightarrow> Inl (MalformedResponseError ''Failed to parse XML'' (body r) ''RackspaceNodeDriver'')
      | Some b \<Rightarrow>
          (let txt = join ''; '' (map (\<lambda>err. case el_text err of None \<Rightarrow> [] | Some t \<Rightarrow> t)
                                   (filter (\<lambda>err. \<not> falsy (el_text err)) (getiterator b)))
           in Inr (str_int (status r) @ '' '' @ reason r @ '' '' @ txt)))"

text \<open>\<^verbatim>\<open>OpenStackResponse\<close>: indexing the filtered dict with \<^verbatim>\<open>'content-type'\<close> raises
  \<^verbatim>\<open>KeyError\<close> when the key is not there.\<close>

definition has_content_type :: "Response \<Rightarrow> string \<Rightarrow> exn + bool" where
  "has_content_type r content_type =
     (let content_type_header =
            dict_of_items (filter (\<lambda>(key, value). lower key = ''content-type'') (headers r))
      in if content_type_header = [] then Inr False
         else case dict_get content_type_header ''content-type'' of
                None \<Rightarrow> Inl (KeyError ''content-type'')
              | Some v \<Rightarrow> Inr (py_find (lower v) (lower content_type) > - 1))"

definition OpenStack_parse_body :: "xml_parser \<Rightarrow> Response \<Rightarrow> exn + parsed" where
  "OpenStack_parse_body XML r =
     (case has_content_type r ''application/xml'' of
        Inl e \<Rightarrow> Inl e
      | Inr has \<Rightarrow>
          if \<not> has \<or> body r = [] then Inr (Raw (body r))
          else case XML (body r) of
                 None \<Rightarrow> Inl (MalformedResponseError ''Failed to parse XML'' (body r) ''RackspaceNodeDriver'')
               | Some b \<Rightarrow> Inr (Tree b))"

section \<open>The connection\<close>

text \<open>
  \<^verbatim>\<open>self.connection.request(action, method=..., data=...)\<close> hands the request to the base
  connection class, which is not part of this file's source: the exchange is the
  parameter \<open>respond\<close>, which answers with a response or raises. The connection keeps the
  requests it was handed in \<open>sent\<close>, so that what an operation puts on the wire can be
  read off the connection it returns.
\<close>

record Request =
  action :: string
  http_method :: string
  data :: "element option"

record Connection =
  respond :: "Request \<Rightarrow> exn + Response"
  sent :: "Request list"
  host :: string
  request_path :: string
  driver :: string

definition request :: "Connection \<Rightarrow> string \<Rightarrow> string \<Rightarrow> element option \<Rightarrow> Connection \<times> (exn + Response)" where
  "request c act m d =
     (let rq = \<lparr>action = act, http_method = m, data = d\<rparr>
      in (c\<lparr>sent := sent c @ [rq]\<rparr>, respond c rq))"

definition tostring :: "element \<Rightarrow> exn + element" where
  "tostring el = (if serialisable el then Inr el else Inl TypeError)"

text \<open>
  What \<^verbatim>\<open>ET.XML\<close> reads back from the text \<^verbatim>\<open>ET.tostring\<close> wrote for an element, for
  tags, attribute values and texts made of printable ASCII characters, which XML carries
  unchanged (\<open>printable\<close>). An attribute \<^verbatim>\<open>xmlns\<close> is read as the default namespace of
  the element and its descendants: it leaves the attribute dict and every tag below it
  becomes \<^verbatim>\<open>{namespace}tag\<close>. An element written with an empty text has no text in the
  document, so its text is read as \<^verbatim>\<open>None\<close>.
\<close>

definition printable :: "string \<Rightarrow> bool" where
  "printable s = list_all (\<lambda>c. 32 \<le> (of_char c :: nat) \<and> (of_char c :: nat) \<le> 126) s"

fun reparse :: "string option \<Rightarrow> element \<Rightarrow> element" where
  "reparse ns (Element t a x cs) =
     (let ns' = (case dict_get a ''xmlns'' of
                   Some (Some u) \<Rightarrow> (if u = [] then None else Some u)
                 | _ \<Rightarrow> ns)
      in Element (case ns' of None \<Rightarrow> t | Some u \<Rightarrow> ''{'' @ u @ ''}'' @ t)
                 (filter (\<lambda>kv. fst kv \<noteq> ''xmlns'') a)
                 (if x = Some [] then None else x)
                 (map (reparse ns') cs))"

definition wire :: "element \<Rightarrow> exn + element" where
  "wire el = (case tostring el of Inl e \<Rightarrow> Inl e | Inr d \<Rightarrow> Inr (reparse None d))"

text \<open>Calling \<^verbatim>\<open>findall\<close> or \<^verbatim>\<open>get\<close> on a decoded body that is not a tree raises
  \<^verbatim>\<open>AttributeError\<close>.\<close>

definition on_tree :: "parsed \<Rightarrow> (element \<Rightarrow> 'a) \<Rightarrow> exn + 'a" where
  "on_tree obj f = (case obj of Tree el \<Rightarrow> Inr (f el) | _ \<Rightarrow> Inl AttributeError)"

section \<open>Entities\<close>

datatype extra_value = Attr "string option" | Metadata "(string option, string option) dict"

record Node =
  node_id :: "string option"
  node_name :: "string option"
  node_state :: NodeState
  public_ip :: "string option list"
  private_ip :: "string option list"
  node_driver :: string
  node_extra :: "(string, extra_value) dict"

record NodeImage =
  image_id :: "string option"
  image_name :: "string option"
  image_driver :: string
  image_extra :: "(string, string option) dict"

record Limits =
  rate :: "(string, string option) dict list"
  absolute :: "(string option, string option) dict"

section \<open>The entity mapper\<close>

definition fixxpath :: "string \<Rightarrow> string" where
  "fixxpath xpath = join ''/'' (map (\<lambda>e. ''{'' @ NAMESPACE @ ''}'' @ e) (split CHR ''/'' xpath))"

definition findall_ns :: "element \<Rightarrow> string \<Rightarrow> element list" where
  "findall_ns el xpath = findall el (fixxpath xpath)"

definition get_ips :: "element list \<Rightarrow> string option list" where
  "get_ips el = map (\<lambda>ip. el_get ip ''addr'') el"

definition get_meta_dict :: "element list \<Rightarrow> (string option, string option) dict" where
  "get_meta_dict el = foldl (\<lambda>d meta. setitem d (el_get meta ''key'') (el_text meta)) [] el"

definition to_node :: "Connection \<Rightarrow> element \<Rightarrow> Node" where
  "to_node c el =
     (let public_ip = get_ips (findall_ns el ''addresses/public/ip'');
          private_ip = get_ips (findall_ns el ''addresses/private/ip'');
          metadata = get_meta_dict (findall_ns el ''metadata/meta'')
      in \<lparr>node_id = el_get el ''id'',
          node_name = el_get el ''name'',
          node_state = node_state_of (el_get el ''status''),
          public_ip = public_ip,
          private_ip = private_ip,
          node_driver = driver c,
          node_extra =
            [(''password'', Attr (el_get el ''adminPass'')),
             (''hostId'', Attr (el_get el ''hostId'')),
             (''imageId'', Attr (el_get el ''imageId'')),
             (''flavorId'', Attr (el_get el ''flavorId'')),
             (''uri'', Attr (Some (''https://'' @ host c @ request_path c @ ''/servers/''
                                    @ py_str (el_get el ''id'')))),
             (''metadata'', Metadata metadata)]\<rparr>)"

definition to_image :: "Connection \<Rightarrow> element \<Rightarrow> NodeImage" where
  "to_image c el =
     \<lparr>image_id = el_get el ''id'',
      image_name = el_get el ''name'',
      image_driver = driver c,
      image_extra =
        [(''updated'', el_get el ''updated''),
         (''created'', el_get el ''created''),
         (''status'', el_get el ''status''),
         (''serverId'', el_get el ''serverId''),
         (''progress'', el_get el ''progress'')]\<rparr>"

definition to_images :: "Connection \<Rightarrow> element \<Rightarrow> NodeImage list" where
  "to_images c obj =
     (let elements = findall_ns obj ''image''
      in map (to_image c) (filter (\<lambda>el. el_get el ''status'' = Some ''ACTIVE'') elements))"

definition metadata_to_xml :: "(string, string) dict \<Rightarrow> element option" where
  "metadata_to_xml metadata =
     (if length metadata = 0 then None
      else Some (foldl (\<lambda>metadata_elm (k, v). SubElement metadata_elm ''meta'' [(''key'', Some k)] (Some v))
                       (Element ''metadata'' [] None []) metadata))"

definition to_rate :: "element \<Rightarrow> (string, string option) dict" where
  "to_rate el = foldl (\<lambda>rate item. setitem rate (fst item) (snd item)) [] (attrib el)"

definition to_absolute :: "element \<Rightarrow> (string option, string option) dict" where
  "to_absolute el = [(el_get el ''name'', el_get el ''value'')]"

definition absolute_limits :: "element list \<Rightarrow> (string option, string option) dict" where
  "absolute_limits items = foldl (\<lambda>absolute item. dict_update absolute (to_absolute item)) [] items"

section \<open>The operations\<close>

text \<open>
  An operation takes the connection and returns it with the request it sent; an
  operation that changes the node it was given returns the node as well. An exception
  leaves the node as it was.
\<close>

definition list_images :: "Connection \<Rightarrow> Connection \<times> (exn + NodeImage list)" where
  "list_images c =
     (case request c ''/images/detail'' ''GET'' None of
        (c', Inl e) \<Rightarrow> (c', Inl e)
      | (c', Inr resp) \<Rightarrow> (c', on_tree (object resp) (to_images c')))"

definition change_password_or_name ::
  "Connection \<Rightarrow> Node \<Rightarrow> string option \<Rightarrow> string option \<Rightarrow> Connection \<times> Node \<times> (exn + bool)" where
  "change_password_or_name c node name password =
     (let uri = ''/servers/'' @ py_str (node_id node);
          name = (if falsy name then node_name node else name);
          body = [(''xmlns'', Some NAMESPACE), (''name'', name)];
          body = (if password \<noteq> None then setitem body ''adminPass'' password else body);
          server_elm = Element ''server'' body None []
      in case tostring server_elm of
           Inl e \<Rightarrow> (c, node, Inl e)
         | Inr d \<Rightarrow>
             (case request c uri ''PUT'' (Some d) of
                (c', Inl e) \<Rightarrow> (c', node, Inl e)
              | (c', Inr resp) \<Rightarrow>
                  (c',
                   (if status resp = 204 \<and> password \<noteq> None
                    then node\<lparr>node_extra := setitem (node_extra node) ''password'' (Attr password)\<rparr>
                    else node),
                   Inr (status resp = 204))))"

definition ex_set_password :: "Connection \<Rightarrow> Node \<Rightarrow> string option \<Rightarrow> Connection \<times> Node \<times> (exn + bool)" where
  "ex_set_password c node password = change_password_or_name c node None password"

definition ex_set_server_name :: "Connection \<Rightarrow> Node \<Rightarrow> string option \<Rightarrow> Connection \<times> Node \<times> (exn + bool)" where
  "ex_set_server_name c node name = change_password_or_name c node name None"

text \<open>\<^verbatim>\<open>ex_get_node_details\<close> takes a node id or, for older callers, a node.\<close>

datatype node_ref = Id string | NodeObj Node

definition ex_get_node_details :: "Connection \<Rightarrow> node_ref \<Rightarrow> Connection \<times> (exn + Node option)" where
  "ex_get_node_details c node_ref =
     (let nid = (case node_ref of NodeObj n \<Rightarrow> node_id n | Id s \<Rightarrow> Some s);
          uri = ''/servers/'' @ py_str nid
      in case request c uri ''GET'' None of
           (c', Inl e) \<Rightarrow> (c', Inl e)
         | (c', Inr resp) \<Rightarrow>
             if status resp = 404 then (c', Inr None)
             else (c', on_tree (object resp) (\<lambda>el. Some (to_node c' el))))"

definition ex_limits :: "Connection \<Rightarrow> Connection \<times> (exn + Limits)" where
  "ex_limits c =
     (case request c ''/limits'' ''GET'' None of
        (c', Inl e) \<Rightarrow> (c', Inl e)
      | (c', Inr resp) \<Rightarrow>
          (c', on_tree (object resp) (\<lambda>limits.
                 \<lparr>rate = map to_rate (findall_ns limits ''rate/limit''),
                  absolute = absolute_limits (findall_ns limits ''absolute/limit'')\<rparr>)))"

definition ex_save_image :: "Connection \<Rightarrow> Node \<Rightarrow> string \<Rightarrow> Connection \<times> (exn + NodeImage)" where
  "ex_save_image c node name =
     (let image_elm = Element ''image''
            [(''xmlns'', Some NAMESPACE), (''name'', Some name), (''serverId'', node_id node)] None []
      in case tostring image_elm of
           Inl e \<Rightarrow> (c, Inl e)
         | Inr d \<Rightarrow>
             (case request c ''/images'' ''POST'' (Some d) of
                (c', Inl e) \<Rightarrow> (c', Inl e)
              | (c', Inr resp) \<Rightarrow> (c', on_tree (object resp) (to_image c'))))"

section \<open>Example data\<close>

text \<open>A connection whose transport answers every request with the given status and decoded
  body, and a node to operate on.\<close>

definition answering :: "int \<Rightarrow> parsed \<Rightarrow> Connection" where
  "answering st obj =
     \<lparr>respond = (\<lambda>rq. Inr \<lparr>status = st, reason = [], headers = [], body = [], object = obj\<rparr>),
      sent = [],
      host = ''servers.api.rackspacecloud.com'',
      request_path = ''/v1.0/slug'',
      driver = ''Rackspace''\<rparr>"

definition web1 :: Node where
  "web1 =
     \<lparr>node_id = Some ''12345'',
      node_name = Some ''web1'',
      node_state = RUNNING,
      public_ip = [Some ''67.23.10.132''],
      private_ip = [Some ''10.176.42.16''],
      node_driver = ''Rackspace'',
      node_extra = [(''password'', Attr (Some ''old'')), (''hostId'', Attr (Some ''e4d909c290d0''))]\<rparr>"

text \<open>An image element of the provider's namespace with the given id and status, and a
  listing of three images.\<close>

definition image_el :: "string \<Rightarrow> string \<Rightarrow> element" where
  "image_el i st =
     Element (''{'' @ NAMESPACE @ ''}image'')
       [(''id'', Some i), (''name'', Some (''img-'' @ i)), (''status'', Some st)] None []"

definition three_images :: element where
  "three_images =
     Element (''{'' @ NAMESPACE @ ''}images'') [] None
       [image_el ''1'' ''ACTIVE'', image_el ''2'' ''SAVING'', image_el ''3'' ''ACTIVE'']"

text \<open>A server element as the provider returns it.\<close>

definition server_el :: element where
  "server_el =
     Element (''{'' @ NAMESPACE @ ''}server'')
       [(''id'', Some ''12345''), (''name'', Some ''web1''), (''status'', Some ''SUSPENDED''),
        (''hostId'', Some ''e4d909c290d0'')] None
       [Element (''{'' @ NAMESPACE @ ''}metadata'') [] None
          [Element (''{'' @ NAMESPACE @ ''}meta'') [(''key'', Some ''env'')] (Some ''prod'') []],
        Element (''{'' @ NAMESPACE @ ''}addresses'') [] None
          [Element (''{'' @ NAMESPACE @ ''}public'') [] None
             [Element (''{'' @ NAMESPACE @ ''}ip'') [(''addr'', Some ''67.23.10.132'')] None []],
           Element (''{'' @ NAMESPACE @ ''}private'') [] None
             [Element (''{'' @ NAMESPACE @ ''}ip'') [(''addr'', Some ''10.176.42.16'')] None []]]]"

text \<open>A limits document with two absolute limits of the same name.\<close>

definition limits_el :: element where
  "limits_el =
     Element (''{'' @ NAMESPACE @ ''}limits'') [] None
       [Element (''{'' @ NAMESPACE @ ''}rate'') [] None [],
        Element (''{'' @ NAMESPACE @ ''}absolute'') [] None
          [Element (''{'' @ NAMESPACE @ ''}limit'') [(''name'', Some ''RAM''), (''value'', Some ''10'')] None [],
           Element (''{'' @ NAMESPACE @ ''}limit'') [(''name'', Some ''RAM''), (''value'', Some ''20'')] None []]]"

text \<open>A limits document with a rate limit and two absolute limits of different names.\<close>

definition limits_el2 :: element where
  "limits_el2 =
     Element (''{'' @ NAMESPACE @ ''}limits'') [] None
       [Element (''{'' @ NAMESPACE @ ''}rate'') [] None
          [Element (''{'' @ NAMESPACE @ ''}limit'') [(''verb'', Some ''POST''), (''value'', Some ''10'')] None []],
        Element (''{'' @ NAMESPACE @ ''}absolute'') [] None
          [Element (''{'' @ NAMESPACE @ ''}limit'') [(''name'', Some ''maxTotalRAMSize''), (''value'', Some ''51200'')] None [],
           Element (''{'' @ NAMESPACE @ ''}limit'') [(''name'', Some ''maxIPGroups''), (''value'', Some ''50'')] None []]]"

text \<open>The server element that carries an encoded metadata element to the provider, as
  \<^verbatim>\<open>create_node\<close> puts it together: the element of the API namespace with the encoding,
  when there is one, appended as its child. The other attributes of the server and its
  personality element play no part in the metadata and are left out.\<close>

definition server_with :: "element option \<Rightarrow> element" where
  "server_with metadata_elm =
     Element ''server'' [(''xmlns'', Some NAMESPACE)] None
       (case metadata_elm of None \<Rightarrow> [] | Some el \<Rightarrow> [el])"

text \<open>A fault document, the tree \<^verbatim>\<open>ET.XML\<close> reads from it, and a parser that knows this
  one document and raises on any other text.\<close>

definition fault_xml :: string where
  "fault_xml = ''<cloudServersFault><message>boom</message><details>try later</details></cloudServersFault>''"

definition fault_el :: element where
  "fault_el =
     Element ''cloudServersFault'' [] None
       [Element ''message'' [] (Some ''boom'') [], Element ''details'' [] (Some ''try later'') []]"

definition XML_fixture :: xml_parser where
  "XML_fixture s = (if s = fault_xml then Some fault_el else None)"

section \<open>Facts about dicts and paths\<close>

lemma dict_get_map_of: "dict_get d k = map_of d k"
  by (induction d) auto

lemma dict_get_setitem:
  "dict_get (setitem d k v) k' = (if k' = k then Some v else dict_get d k')"
  by (induction d) auto

lemma setitem_fresh: "k \<notin> fst ` set d \<Longrightarrow> setitem d k v = d @ [(k, v)]"
  by (induction d) auto

lemma dict_update_distinct:
  "distinct (map fst (d @ its)) \<Longrightarrow> dict_update d its = d @ its"
proof (induction its arbitrary: d)
  case Nil
  then show ?case by (simp add: dict_update_def)
next
  case (Cons a its)
  obtain k v where a: "a = (k, v)" by (cases a)
  from Cons.prems a have fresh: "k \<notin> fst ` set d" by auto
  from Cons.prems a have "distinct (map fst ((d @ [(k, v)]) @ its))" by auto
  from Cons.IH[OF this] show ?case
    using fresh a by (simp add: dict_update_def setitem_fresh)
qed

text \<open>The namespaced paths of the driver, resolved once.\<close>

lemma findall_ns_image:
  "findall_ns obj ''image'' = filter (\<lambda>c. tag c = ''{'' @ NAMESPACE @ ''}image'') (children obj)"
  by (simp add: findall_ns_def findall_def fixxpath_def split_def select_step_def NAMESPACE_def)

lemma findall_ns_absolute_limit:
  "findall_ns obj ''absolute/limit'' =
     concat (map (\<lambda>e. filter (\<lambda>c. tag c = ''{'' @ NAMESPACE @ ''}limit'') (children e))
                 (filter (\<lambda>c. tag c = ''{'' @ NAMESPACE @ ''}absolute'') (children obj)))"
  by (simp add: findall_ns_def findall_def fixxpath_def split_def select_step_def NAMESPACE_def)

lemma findall_ns_metadata_meta:
  "findall_ns obj ''metadata/meta'' =
     concat (map (\<lambda>e. filter (\<lambda>c. tag c = ''{'' @ NAMESPACE @ ''}meta'') (children e))
                 (filter (\<lambda>c. tag c = ''{'' @ NAMESPACE @ ''}metadata'') (children obj)))"
  by (simp add: findall_ns_def findall_def fixxpath_def split_def select_step_def NAMESPACE_def)

lemma findall_ns_rate_limit:
  "findall_ns obj ''rate/limit'' =
     concat (map (\<lambda>e. filter (\<lambda>c. tag c = ''{'' @ NAMESPACE @ ''}limit'') (children e))
                 (filter (\<lambda>c. tag c = ''{'' @ NAMESPACE @ ''}rate'') (children obj)))"
  by (simp add: findall_ns_def findall_def fixxpath_def split_def select_step_def NAMESPACE_def)

lemma concat_map_concat_map:
  "concat (map f (concat (map g xs))) = concat (map (\<lambda>x. concat (map f (g x))) xs)"
  by (induction xs) auto

lemma findall_ns_public_ip:
  "findall_ns obj ''addresses/public/ip'' =
     concat (map (\<lambda>a. concat (map (\<lambda>p. filter (\<lambda>c. tag c = ''{'' @ NAMESPACE @ ''}ip'') (children p))
                                    (filter (\<lambda>c. tag c = ''{'' @ NAMESPACE @ ''}public'') (children a))))
                 (filter (\<lambda>c. tag c = ''{'' @ NAMESPACE @ ''}addresses'') (children obj)))"
  by (simp add: findall_ns_def findall_def fixxpath_def split_def select_step_def NAMESPACE_def
        concat_map_concat_map)

lemma findall_ns_private_ip:
  "findall_ns obj ''addresses/private/ip'' =
     concat (map (\<lambda>a. concat (map (\<lambda>p. filter (\<lambda>c. tag c = ''{'' @ NAMESPACE @ ''}ip'') (children p))
                                    (filter (\<lambda>c. tag c = ''{'' @ NAMESPACE @ ''}private'') (children a))))
                 (filter (\<lambda>c. tag c = ''{'' @ NAMESPACE @ ''}addresses'') (children obj)))"
  by (simp add: findall_ns_def findall_def fixxpath_def split_def select_step_def NAMESPACE_def
        concat_map_concat_map)

lemma NODE_STATE_MAP_items:
  "NODE_STATE_MAP =
     [(''BUILD'', PENDING), (''REBUILD'', PENDING), (''ACTIVE'', RUNNING),
      (''SUSPENDED'', TERMINATED), (''QUEUE_RESIZE'', PENDING), (''PREP_RESIZE'', PENDING),
      (''VERIFY_RESIZE'', RUNNING), (''PASSWORD'', PENDING), (''RESCUE'', PENDING),
      (''REBOOT'', REBOOTING), (''HARD_REBOOT'', REBOOTING), (''SHARE_IP'', PENDING),
      (''SHARE_IP_NO_CONFIG'', PENDING), (''DELETE_IP'', PENDING), (''UNKNOWN'', UNKNOWN)]"
  by (simp add: NODE_STATE_MAP_def dict_of_items_def dict_update_def)

section \<open>The state normalizer\<close>

text \<open>
  Claim C1. Normalizing a provider status gives the state of the fixed table for each of
  its fifteen keys, and \<open>UNKNOWN\<close> for a missing status and for every string that is not
  a key. \<open>node_state_of\<close> is a total function, so there is no status on which it fails.
\<close>

theorem node_state_table:
  "node_state_of (Some ''BUILD'') = PENDING
   \<and> node_state_of (Some ''REBUILD'') = PENDING
   \<and> node_state_of (Some ''ACTIVE'') = RUNNING
   \<and> node_state_of (Some ''SUSPENDED'') = TERMINATED
   \<and> node_state_of (Some ''QUEUE_RESIZE'') = PENDING
   \<and> node_state_of (Some ''PREP_RESIZE'') = PENDING
   \<and> node_state_of (Some ''VERIFY_RESIZE'') = RUNNING
   \<and> node_state_of (Some ''PASSWORD'') = PENDING
   \<and> node_state_of (Some ''RESCUE'') = PENDING
   \<and> node_state_of (Some ''REBOOT'') = REBOOTING
   \<and> node_state_of (Some ''HARD_REBOOT'') = REBOOTING
   \<and> node_state_of (Some ''SHARE_IP'') = PENDING
   \<and> node_state_of (Some ''SHARE_IP_NO_CONFIG'') = PENDING
   \<and> node_state_of (Some ''DELETE_IP'') = PENDING
   \<and> node_state_of (Some ''UNKNOWN'') = UNKNOWN
   \<and> node_state_of None = UNKNOWN
   \<and> (\<forall>s. s \<notin> set [''BUILD'', ''REBUILD'', ''ACTIVE'', ''SUSPENDED'', ''QUEUE_RESIZE'',
                      ''PREP_RESIZE'', ''VERIFY_RESIZE'', ''PASSWORD'', ''RESCUE'', ''REBOOT'',
                      ''HARD_REBOOT'', ''SHARE_IP'', ''SHARE_IP_NO_CONFIG'', ''DELETE_IP'',
                      ''UNKNOWN'']
          \<longrightarrow> node_state_of (Some s) = UNKNOWN)"
  unfolding node_state_of_def NODE_STATE_MAP_items by simp

theorem node_state_table_witness:
  "''SHUTOFF'' \<notin> set [''BUILD'', ''REBUILD'', ''ACTIVE'', ''SUSPENDED'', ''QUEUE_RESIZE'',
                      ''PREP_RESIZE'', ''VERIFY_RESIZE'', ''PASSWORD'', ''RESCUE'', ''REBOOT'',
                      ''HARD_REBOOT'', ''SHARE_IP'', ''SHARE_IP_NO_CONFIG'', ''DELETE_IP'',
                      ''UNKNOWN'']
   \<and> node_state_of (Some ''SHUTOFF'') = UNKNOWN
   \<and> node_state_of (Some ''SUSPENDED'') = TERMINATED"
  using node_state_table by simp

section \<open>The image list\<close>

text \<open>
  Claim C2. The image list of a decoded tree is the image elements of the tree whose
  status attribute is the string ACTIVE, each mapped once and in document order, so every
  image of the list has the status ACTIVE. A listing of three images with the statuses
  ACTIVE, SAVING, ACTIVE gives two images.
\<close>

theorem to_images_active_only:
  "to_images c obj =
     map (to_image c)
       (filter (\<lambda>el. el_get el ''status'' = Some ''ACTIVE'')
          (filter (\<lambda>el. tag el = ''{'' @ NAMESPACE @ ''}image'') (children obj)))
   \<and> (\<forall>i \<in> set (to_images c obj). dict_get (image_extra i) ''status'' = Some (Some ''ACTIVE''))"
  by (auto simp: to_images_def findall_ns_image to_image_def)

theorem to_images_active_only_witness:
  "length (to_images (answering 200 (Tree three_images)) three_images) = 2
   \<and> map image_id (to_images (answering 200 (Tree three_images)) three_images)
       = [Some ''1'', Some ''3'']
   \<and> map (\<lambda>i. dict_get (image_extra i) ''status'')
         (to_images (answering 200 (Tree three_images)) three_images)
       = [Some (Some ''ACTIVE''), Some (Some ''ACTIVE'')]"
  using to_images_active_only [of "answering 200 (Tree three_images)" three_images]
  by (simp add: three_images_def image_el_def to_image_def el_get_def)

section \<open>Changing the password or the name\<close>

text \<open>
  Claim C3. When \<open>ex_set_password\<close> with a password \<open>p\<close> has sent its request and the
  transport has answered: on status 204 the operation returns true and the node is the
  node it was given with \<open>p\<close> stored under the key password of its extra dict; on any
  other status it returns false and the node is unchanged in every field.
\<close>

theorem ex_set_password_effect:
  assumes run: "ex_set_password c n (Some p) = (c', n', r)"
    and sent: "sent c' = sent c @ [rq]"
    and resp: "respond c rq = Inr resp"
  shows "(status resp = 204 \<longrightarrow>
            r = Inr True
            \<and> n' = n\<lparr>node_extra := setitem (node_extra n) ''password'' (Attr (Some p))\<rparr>
            \<and> dict_get (node_extra n') ''password'' = Some (Attr (Some p)))
         \<and> (status resp \<noteq> 204 \<longrightarrow> r = Inr False \<and> n' = n)"
proof -
  let ?elm = "Element ''server''
                [(''xmlns'', Some NAMESPACE), (''name'', node_name n), (''adminPass'', Some p)] None []"
  let ?rq = "\<lparr>action = ''/servers/'' @ py_str (node_id n), http_method = ''PUT'', data = Some ?elm\<rparr>"
  show ?thesis
  proof (cases "serialisable ?elm")
    case False
    with run have "c' = c"
      by (simp add: ex_set_password_def change_password_or_name_def falsy_def tostring_def)
    with sent show ?thesis by simp
  next
    case True
    with run have c': "c' = c\<lparr>sent := sent c @ [?rq]\<rparr>"
      by (auto simp: ex_set_password_def change_password_or_name_def falsy_def tostring_def
            request_def Let_def split: sum.splits)
    with sent have "rq = ?rq" by simp
    with resp have "respond c ?rq = Inr resp" by simp
    with True run show ?thesis
      by (auto simp: ex_set_password_def change_password_or_name_def falsy_def tostring_def
            request_def Let_def dict_get_setitem)
  qed
qed

theorem ex_set_password_effect_witness:
  "snd (snd (ex_set_password (answering 204 NoContent) web1 (Some ''s3cret''))) = Inr True
   \<and> fst (snd (ex_set_password (answering 204 NoContent) web1 (Some ''s3cret'')))
       = web1\<lparr>node_extra := [(''password'', Attr (Some ''s3cret'')),
                                (''hostId'', Attr (Some ''e4d909c290d0''))]\<rparr>
   \<and> snd (snd (ex_set_password (answering 500 NoContent) web1 (Some ''s3cret''))) = Inr False
   \<and> fst (snd (ex_set_password (answering 500 NoContent) web1 (Some ''s3cret''))) = web1"
proof -
  let ?rq = "\<lparr>action = ''/servers/12345'', http_method = ''PUT'',
              data = Some (Element ''server''
                [(''xmlns'', Some NAMESPACE), (''name'', Some ''web1''), (''adminPass'', Some ''s3cret'')]
                None [])\<rparr>"
  have sent: "sent (fst (ex_set_password (answering st NoContent) web1 (Some ''s3cret'')))
                = sent (answering st NoContent) @ [?rq]" for st
    by (simp add: ex_set_password_def change_password_or_name_def falsy_def tostring_def
          request_def answering_def web1_def py_str_def Let_def)
  have resp: "respond (answering st NoContent) ?rq
                = Inr \<lparr>status = st, reason = [], headers = [], body = [], object = NoContent\<rparr>" for st
    by (simp add: answering_def)
  have run: "ex_set_password (answering st NoContent) web1 (Some ''s3cret'')
               = (fst (ex_set_password (answering st NoContent) web1 (Some ''s3cret'')),
                  fst (snd (ex_set_password (answering st NoContent) web1 (Some ''s3cret''))),
                  snd (snd (ex_set_password (answering st NoContent) web1 (Some ''s3cret''))))" for st
    by simp
  from ex_set_password_effect [OF run sent resp, of 204]
    ex_set_password_effect [OF run sent resp, of 500]
  show ?thesis by (simp add: web1_def)
qed

text \<open>
  Claim C10. Every request the modify operation sends carries a name attribute whose value
  is a string: the caller's name when it is a non-empty string, and the node's current name
  when the caller gave none or an empty one, also on a password-only change.
\<close>

theorem modify_request_carries_name:
  assumes run: "change_password_or_name c node name password = (c', n', r)"
    and sent: "sent c' = sent c @ [rq]"
  shows "\<exists>payload nm. data rq = Some payload
           \<and> dict_get (attrib payload) ''name'' = Some (Some nm)
           \<and> (if falsy name then node_name node = Some nm else name = Some nm)"
proof -
  let ?name = "if falsy name then node_name node else name"
  let ?body0 = "[(''xmlns'', Some NAMESPACE), (''name'', ?name)]"
  let ?body = "if password \<noteq> None then setitem ?body0 ''adminPass'' password else ?body0"
  let ?elm = "Element ''server'' ?body None []"
  let ?rq = "\<lparr>action = ''/servers/'' @ py_str (node_id node), http_method = ''PUT'', data = Some ?elm\<rparr>"
  have name: "dict_get ?body ''name'' = Some ?name" by simp
  show ?thesis
  proof (cases "serialisable ?elm")
    case False
    with run have "c' = c"
      by (simp add: change_password_or_name_def tostring_def Let_def)
    with sent show ?thesis by simp
  next
    case True
    then have "?name \<noteq> None" by (auto split: if_splits)
    then obtain nm where nm: "?name = Some nm" by blast
    from True run have c': "c' = c\<lparr>sent := sent c @ [?rq]\<rparr>"
      by (auto simp: change_password_or_name_def tostring_def request_def Let_def split: sum.splits)
    with sent have "rq = ?rq" by simp
    then have "data rq = Some ?elm" by simp
    moreover from name nm have "dict_get (attrib ?elm) ''name'' = Some (Some nm)" by simp
    moreover from nm have "if falsy name then node_name node = Some nm else name = Some nm"
      by (simp split: if_splits)
    ultimately show ?thesis by blast
  qed
qed

theorem modify_request_carries_name_witness:
  "(\<exists>payload. data (last (sent (fst (ex_set_password (answering 204 NoContent) web1 (Some ''s3cret'')))))
        = Some payload
      \<and> dict_get (attrib payload) ''name'' = Some (Some ''web1''))"
proof -
  let ?c = "answering 204 NoContent"
  let ?rq = "\<lparr>action = ''/servers/12345'', http_method = ''PUT'',
              data = Some (Element ''server''
                [(''xmlns'', Some NAMESPACE), (''name'', Some ''web1''), (''adminPass'', Some ''s3cret'')]
                None [])\<rparr>"
  have sent: "sent (fst (change_password_or_name ?c web1 None (Some ''s3cret''))) = sent ?c @ [?rq]"
    by (simp add: change_password_or_name_def falsy_def tostring_def
          request_def answering_def web1_def py_str_def Let_def)
  have run: "change_password_or_name ?c web1 None (Some ''s3cret'')
               = (fst (change_password_or_name ?c web1 None (Some ''s3cret'')),
                  fst (snd (change_password_or_name ?c web1 None (Some ''s3cret''))),
                  snd (snd (change_password_or_name ?c web1 None (Some ''s3cret''))))"
    by simp
  from modify_request_carries_name [OF run sent]
  obtain payload nm where "data ?rq = Some payload"
    "dict_get (attrib payload) ''name'' = Some (Some nm)" "node_name web1 = Some nm"
    by (auto simp: falsy_def)
  moreover have "last (sent (fst (ex_set_password ?c web1 (Some ''s3cret'')))) = ?rq"
    using sent by (simp add: ex_set_password_def)
  ultimately show ?thesis by (simp add: web1_def)
qed

text \<open>The request goes out whenever the name to send is a string.\<close>

lemma modify_request_is_sent:
  assumes "\<not> falsy name \<or> node_name node \<noteq> None"
  shows "\<exists>rq. sent (fst (change_password_or_name c node name password)) = sent c @ [rq]"
  using assms
  by (auto simp: change_password_or_name_def tostring_def request_def Let_def falsy_def split: sum.splits)

section \<open>Node details\<close>

text \<open>
  Claim C4, as the code has it. The details request is always sent. When the transport
  answers it with status 404, the operation returns \<open>Inr None\<close>: no exception and no
  node. When it answers with a status from 200 to 299 and the decoded body is a tree, the
  operation returns the node read from that tree: its id, its name, its normalized state,
  its public and private addresses and its extra dict.
\<close>

theorem ex_get_node_details_not_found:
  "fst (ex_get_node_details c node_ref)
     = c\<lparr>sent := sent c @
          [\<lparr>action = ''/servers/'' @ py_str (case node_ref of NodeObj n \<Rightarrow> node_id n | Id s \<Rightarrow> Some s),
            http_method = ''GET'', data = None\<rparr>]\<rparr>
   \<and> (\<forall>resp.
        respond c \<lparr>action = ''/servers/'' @ py_str (case node_ref of NodeObj n \<Rightarrow> node_id n | Id s \<Rightarrow> Some s),
                   http_method = ''GET'', data = None\<rparr> = Inr resp
        \<longrightarrow> (status resp = 404 \<longrightarrow> snd (ex_get_node_details c node_ref) = Inr None)
          \<and> (success resp \<longrightarrow>
               (\<forall>el. object resp = Tree el \<longrightarrow>
                  snd (ex_get_node_details c node_ref) =
                    Inr (Some
                      \<lparr>node_id = el_get el ''id'',
                       node_name = el_get el ''name'',
                       node_state = node_state_of (el_get el ''status''),
                       public_ip = map (\<lambda>ip. el_get ip ''addr'') (findall_ns el ''addresses/public/ip''),
                       private_ip = map (\<lambda>ip. el_get ip ''addr'') (findall_ns el ''addresses/private/ip''),
                       node_driver = driver c,
                       node_extra =
                         [(''password'', Attr (el_get el ''adminPass'')),
                          (''hostId'', Attr (el_get el ''hostId'')),
                          (''imageId'', Attr (el_get el ''imageId'')),
                          (''flavorId'', Attr (el_get el ''flavorId'')),
                          (''uri'', Attr (Some (''https://'' @ host c @ request_path c @ ''/servers/''
                                                 @ py_str (el_get el ''id'')))),
                          (''metadata'', Metadata (get_meta_dict (findall_ns el ''metadata/meta'')))]\<rparr>))))"
  by (auto simp: ex_get_node_details_def request_def Let_def success_def on_tree_def to_node_def
        get_ips_def split: sum.splits)

theorem ex_get_node_details_not_found_witness:
  "snd (ex_get_node_details (answering 404 NoContent) (Id ''12345'')) = Inr None
   \<and> snd (ex_get_node_details (answering 200 (Tree server_el)) (Id ''12345''))
       = Inr (Some
           \<lparr>node_id = Some ''12345'',
            node_name = Some ''web1'',
            node_state = TERMINATED,
            public_ip = [Some ''67.23.10.132''],
            private_ip = [Some ''10.176.42.16''],
            node_driver = ''Rackspace'',
            node_extra =
              [(''password'', Attr None),
               (''hostId'', Attr (Some ''e4d909c290d0'')),
               (''imageId'', Attr None),
               (''flavorId'', Attr None),
               (''uri'', Attr (Some ''https://servers.api.rackspacecloud.com/v1.0/slug/servers/12345'')),
               (''metadata'', Metadata [(Some ''env'', Some ''prod'')])]\<rparr>)"
proof -
  have resp: "respond (answering st obj) rq
                = Inr \<lparr>status = st, reason = [], headers = [], body = [], object = obj\<rparr>" for st obj rq
    by (simp add: answering_def)
  have st: "node_state_of (Some ''SUSPENDED'') = TERMINATED"
    unfolding node_state_of_def NODE_STATE_MAP_items by simp
  have a: "snd (ex_get_node_details (answering 404 NoContent) (Id ''12345'')) = Inr None"
    using ex_get_node_details_not_found [of "answering 404 NoContent" "Id ''12345''"]
    by (simp add: resp)
  have b: "snd (ex_get_node_details (answering 200 (Tree server_el)) (Id ''12345''))
       = Inr (Some
           \<lparr>node_id = el_get server_el ''id'',
            node_name = el_get server_el ''name'',
            node_state = node_state_of (el_get server_el ''status''),
            public_ip = map (\<lambda>ip. el_get ip ''addr'') (findall_ns server_el ''addresses/public/ip''),
            private_ip = map (\<lambda>ip. el_get ip ''addr'') (findall_ns server_el ''addresses/private/ip''),
            node_driver = driver (answering 200 (Tree server_el)),
            node_extra =
              [(''password'', Attr (el_get server_el ''adminPass'')),
               (''hostId'', Attr (el_get server_el ''hostId'')),
               (''imageId'', Attr (el_get server_el ''imageId'')),
               (''flavorId'', Attr (el_get server_el ''flavorId'')),
               (''uri'', Attr (Some (''https://'' @ host (answering 200 (Tree server_el))
                                      @ request_path (answering 200 (Tree server_el)) @ ''/servers/''
                                      @ py_str (el_get server_el ''id'')))),
               (''metadata'', Metadata (get_meta_dict (findall_ns server_el ''metadata/meta'')))]\<rparr>)"
    using ex_get_node_details_not_found [of "answering 200 (Tree server_el)" "Id ''12345''"]
    by (simp add: resp success_def)
  have ids: "el_get server_el ''id'' = Some ''12345''" "el_get server_el ''name'' = Some ''web1''"
    "el_get server_el ''status'' = Some ''SUSPENDED''" "el_get server_el ''adminPass'' = None"
    "el_get server_el ''hostId'' = Some ''e4d909c290d0''" "el_get server_el ''imageId'' = None"
    "el_get server_el ''flavorId'' = None"
    by (simp_all add: server_el_def el_get_def)
  have pub: "map (\<lambda>ip. el_get ip ''addr'') (findall_ns server_el ''addresses/public/ip'') = [Some ''67.23.10.132'']"
    by (simp add: findall_ns_public_ip server_el_def el_get_def)
  have priv: "map (\<lambda>ip. el_get ip ''addr'') (findall_ns server_el ''addresses/private/ip'') = [Some ''10.176.42.16'']"
    by (simp add: findall_ns_private_ip server_el_def el_get_def)
  have meta: "get_meta_dict (findall_ns server_el ''metadata/meta'') = [(Some ''env'', Some ''prod'')]"
    by (simp add: findall_ns_metadata_meta server_el_def el_get_def get_meta_dict_def)
  have conn: "driver (answering 200 (Tree server_el)) = ''Rackspace''"
    "host (answering 200 (Tree server_el)) = ''servers.api.rackspacecloud.com''"
    "request_path (answering 200 (Tree server_el)) = ''/v1.0/slug''"
    by (simp_all add: answering_def)
  from a b show ?thesis
    by (simp only: ids pub priv meta conn st) (simp add: py_str_def)
qed

text \<open>
  A 2xx answer does not always give a node, as the specification has it: when its body is
  empty there is no tree to map, and the operation raises \<^verbatim>\<open>AttributeError\<close>.
\<close>

theorem ex_get_node_details_empty_body_counterexample:
  "success \<lparr>status = 200, reason = [], headers = [], body = [], object = NoContent\<rparr>
   \<and> respond (answering 200 NoContent) \<lparr>action = ''/servers/12345'', http_method = ''GET'', data = None\<rparr>
       = Inr \<lparr>status = 200, reason = [], headers = [], body = [], object = NoContent\<rparr>
   \<and> snd (ex_get_node_details (answering 200 NoContent) (Id ''12345'')) = Inl AttributeError"
  by (simp add: success_def ex_get_node_details_def request_def answering_def on_tree_def
        py_str_def Let_def)

section \<open>Saving an image\<close>

text \<open>
  Claim C9. For a node with an id, \<open>ex_save_image\<close> sends the image element for that node
  and, when the decoded body of the answer is a tree, returns the image read from the
  tree, whatever its status attribute is: the status of the element, ACTIVE or not, is
  copied into the image and never tested. A node without an id cannot be written into the
  request, and nothing is sent.
\<close>

theorem ex_save_image_no_status_filter:
  "(node_id node = None \<longrightarrow> ex_save_image c node name = (c, Inl TypeError))
   \<and> (\<forall>i. node_id node = Some i \<longrightarrow>
        fst (ex_save_image c node name)
          = c\<lparr>sent := sent c @
               [\<lparr>action = ''/images'', http_method = ''POST'',
                 data = Some (Element ''image''
                   [(''xmlns'', Some NAMESPACE), (''name'', Some name), (''serverId'', Some i)] None [])\<rparr>]\<rparr>
        \<and> (\<forall>resp el.
              respond c \<lparr>action = ''/images'', http_method = ''POST'',
                         data = Some (Element ''image''
                           [(''xmlns'', Some NAMESPACE), (''name'', Some name), (''serverId'', Some i)]
                           None [])\<rparr> = Inr resp
              \<and> object resp = Tree el
              \<longrightarrow> snd (ex_save_image c node name) =
                    Inr \<lparr>image_id = el_get el ''id'',
                         image_name = el_get el ''name'',
                         image_driver = driver c,
                         image_extra =
                           [(''updated'', el_get el ''updated''),
                            (''created'', el_get el ''created''),
                            (''status'', el_get el ''status''),
                            (''serverId'', el_get el ''serverId''),
                            (''progress'', el_get el ''progress'')]\<rparr>))"
  by (auto simp: ex_save_image_def tostring_def request_def Let_def on_tree_def to_image_def
        split: sum.splits)

theorem ex_save_image_no_status_filter_witness:
  "snd (ex_save_image (answering 200 (Tree (image_el ''7'' ''SAVING''))) web1 ''snap'')
     = Inr \<lparr>image_id = Some ''7'', image_name = Some ''img-7'', image_driver = ''Rackspace'',
            image_extra = [(''updated'', None), (''created'', None), (''status'', Some ''SAVING''),
                           (''serverId'', None), (''progress'', None)]\<rparr>
   \<and> snd (ex_save_image (answering 200 (Tree (image_el ''8'' ''ACTIVE''))) web1 ''snap'')
     = Inr \<lparr>image_id = Some ''8'', image_name = Some ''img-8'', image_driver = ''Rackspace'',
            image_extra = [(''updated'', None), (''created'', None), (''status'', Some ''ACTIVE''),
                           (''serverId'', None), (''progress'', None)]\<rparr>
   \<and> sent (fst (ex_save_image (answering 200 (Tree (image_el ''7'' ''SAVING''))) web1 ''snap''))
     = [\<lparr>action = ''/images'', http_method = ''POST'',
         data = Some (Element ''image''
           [(''xmlns'', Some NAMESPACE), (''name'', Some ''snap''), (''serverId'', Some ''12345'')]
           None [])\<rparr>]"
proof -
  have resp: "respond (answering st obj) rq
                = Inr \<lparr>status = st, reason = [], headers = [], body = [], object = obj\<rparr>" for st obj rq
    by (simp add: answering_def)
  have nid: "node_id web1 = Some ''12345''" by (simp add: web1_def)
  from ex_save_image_no_status_filter [of web1 "answering 200 (Tree (image_el ''7'' ''SAVING''))" "''snap''"]
    ex_save_image_no_status_filter [of web1 "answering 200 (Tree (image_el ''8'' ''ACTIVE''))" "''snap''"]
  show ?thesis
    by (simp add: nid resp) (simp add: answering_def image_el_def el_get_def)
qed

section \<open>Metadata\<close>

lemma get_meta_dict_update:
  "get_meta_dict els = dict_update [] (map (\<lambda>meta. (el_get meta ''key'', el_text meta)) els)"
  by (simp add: get_meta_dict_def dict_update_def foldl_map)

lemma foldl_SubElement:
  "foldl (\<lambda>metadata_elm (k, v). SubElement metadata_elm ''meta'' [(''key'', Some k)] (Some v)) e0 m
     = Element (tag e0) (attrib e0) (el_text e0)
         (children e0 @ map (\<lambda>(k, v). Element ''meta'' [(''key'', Some k)] (Some v) []) m)"
  by (induction m arbitrary: e0) (auto simp: SubElement_def)

lemma metadata_to_xml_closed:
  "metadata_to_xml m =
     (if m = [] then None
      else Some (Element ''metadata'' [] None
                   (map (\<lambda>(k, v). Element ''meta'' [(''key'', Some k)] (Some v) []) m)))"
  by (simp add: metadata_to_xml_def foldl_SubElement)

lemma wire_server_with:
  "wire (server_with (metadata_to_xml m)) =
     Inr (Element (''{'' @ NAMESPACE @ ''}server'') [] None
            (if m = [] then []
             else [Element (''{'' @ NAMESPACE @ ''}metadata'') [] None
                     (map (\<lambda>(k, v). Element (''{'' @ NAMESPACE @ ''}meta'') [(''key'', Some k)]
                                        (if v = [] then None else Some v) []) m)]))"
proof -
  have ne: "NAMESPACE \<noteq> []" by (simp add: NAMESPACE_def)
  have ser: "list_all serialisable (map (\<lambda>(k, v). Element ''meta'' [(''key'', Some k)] (Some v) []) m)"
    by (induction m) auto
  have rp: "map (reparse (Some NAMESPACE)) (map (\<lambda>(k, v). Element ''meta'' [(''key'', Some k)] (Some v) []) m)
        = map (\<lambda>(k, v). Element (''{'' @ NAMESPACE @ ''}meta'') [(''key'', Some k)]
                                        (if v = [] then None else Some v) []) m"
    by (induction m) auto
  show ?thesis
    using ne ser rp
    by (simp add: wire_def tostring_def server_with_def metadata_to_xml_closed)
qed

lemma get_meta_dict_reparsed:
  assumes keys: "distinct (map fst m)"
  shows "get_meta_dict (map (\<lambda>(k, v). Element (''{'' @ NAMESPACE @ ''}meta'') [(''key'', Some k)]
                                        (if v = [] then None else Some v) []) m)
           = map (\<lambda>(k, v). (Some k, if v = [] then None else Some v)) m"
proof -
  let ?els = "map (\<lambda>(k, v). Element (''{'' @ NAMESPACE @ ''}meta'') [(''key'', Some k)]
                                        (if v = [] then None else Some v) []) m"
  let ?enc = "map (\<lambda>(k, v). (Some k, if v = [] then None else Some v)) m"
  have mm: "map (\<lambda>meta. (el_get meta ''key'', el_text meta)) ?els = ?enc"
    by (induction m) (auto simp: el_get_def)
  have dd: "distinct (map fst ([] @ ?enc))"
    using keys by (simp add: distinct_map comp_def case_prod_unfold inj_on_def)
  have "get_meta_dict ?els = dict_update [] (map (\<lambda>meta. (el_get meta ''key'', el_text meta)) ?els)"
    by (rule get_meta_dict_update)
  also have "\<dots> = dict_update [] ?enc"
    by (simp only: mm)
  also have "\<dots> = [] @ ?enc"
    by (rule dict_update_distinct [OF dd])
  finally show ?thesis by simp
qed

text \<open>
  Claim C6, as the code has it. A metadata dict with string keys and string values of
  printable characters (a dict has each key once) is encoded by \<open>metadata_to_xml\<close>, sent
  under a server element of the API namespace, read back from the wire and mapped by
  \<open>to_node\<close>, which collects the entries found under the path \<^verbatim>\<open>metadata/meta\<close>. The
  metadata of the node has the keys of the original in their order; a non-empty value
  comes back as it was and an empty value comes back as \<^verbatim>\<open>None\<close>. So the round trip
  gives a dict equal to the original when no value is the empty string.
\<close>

theorem metadata_round_trip:
  assumes keys: "distinct (map fst metadata)"
    and chars: "\<forall>kv \<in> set metadata. printable (fst kv) \<and> printable (snd kv)"
  shows "\<exists>el. wire (server_with (metadata_to_xml metadata)) = Inr el
           \<and> dict_get (node_extra (to_node c el)) ''metadata''
               = Some (Metadata (map (\<lambda>(k, v). (Some k, if v = [] then None else Some v)) metadata))
           \<and> ((\<forall>kv \<in> set metadata. snd kv \<noteq> []) \<longrightarrow>
                dict_get (node_extra (to_node c el)) ''metadata''
                  = Some (Metadata (map (\<lambda>(k, v). (Some k, Some v)) metadata)))"
proof -
  let ?meta = "\<lambda>(k, v). Element (''{'' @ NAMESPACE @ ''}meta'') [(''key'', Some k)]
                                        (if v = [] then None else Some v) []"
  let ?el = "Element (''{'' @ NAMESPACE @ ''}server'') [] None
               (if metadata = [] then []
                else [Element (''{'' @ NAMESPACE @ ''}metadata'') [] None (map ?meta metadata)])"
  have w: "wire (server_with (metadata_to_xml metadata)) = Inr ?el"
    by (rule wire_server_with)
  have found: "findall_ns ?el ''metadata/meta'' = map ?meta metadata"
    by (auto simp: findall_ns_metadata_meta filter_id_conv)
  have dec: "dict_get (node_extra (to_node c ?el)) ''metadata''
               = Some (Metadata (map (\<lambda>(k, v). (Some k, if v = [] then None else Some v)) metadata))"
  proof -
    have "dict_get (node_extra (to_node c e)) ''metadata''
            = Some (Metadata (get_meta_dict (findall_ns e ''metadata/meta'')))" for e
      by (simp add: to_node_def Let_def)
    then show ?thesis
      by (simp only: found get_meta_dict_reparsed [OF keys])
  qed
  have same: "map (\<lambda>(k, v). (Some k, if v = [] then None else Some v)) metadata
                = map (\<lambda>(k, v). (Some k, Some v)) metadata"
    if "\<forall>kv \<in> set metadata. snd kv \<noteq> []"
    using that by (induction metadata) auto
  from w dec same show ?thesis by auto
qed

theorem metadata_round_trip_witness:
  "(\<exists>el. wire (server_with (metadata_to_xml [(''env'', ''prod''), (''tier'', ''1'')])) = Inr el
       \<and> dict_get (node_extra (to_node (answering 200 NoContent) el)) ''metadata''
           = Some (Metadata [(Some ''env'', Some ''prod''), (Some ''tier'', Some ''1'')]))"
proof -
  have d: "distinct (map fst [(''env'', ''prod''), (''tier'', ''1'')])" by simp
  have p: "\<forall>kv \<in> set [(''env'', ''prod''), (''tier'', ''1'')]. printable (fst kv) \<and> printable (snd kv)"
    by (simp add: printable_def)
  from metadata_round_trip [OF d p, of "answering 200 NoContent"]
  show ?thesis by auto
qed

text \<open>
  The claim as the specification words it holds for every dict of strings. On the dict
  with the one key \<^verbatim>\<open>k\<close> and the empty string as its value, the meta element is written
  without text, and the mapper reads the value \<^verbatim>\<open>None\<close>.
\<close>

theorem metadata_round_trip_empty_value_counterexample:
  "wire (server_with (metadata_to_xml [(''k'', [])]))
     = Inr (Element (''{'' @ NAMESPACE @ ''}server'') [] None
              [Element (''{'' @ NAMESPACE @ ''}metadata'') [] None
                 [Element (''{'' @ NAMESPACE @ ''}meta'') [(''key'', Some ''k'')] None []]])
   \<and> dict_get (node_extra (to_node (answering 200 NoContent)
         (Element (''{'' @ NAMESPACE @ ''}server'') [] None
              [Element (''{'' @ NAMESPACE @ ''}metadata'') [] None
                 [Element (''{'' @ NAMESPACE @ ''}meta'') [(''key'', Some ''k'')] None []]]))) ''metadata''
       = Some (Metadata [(Some ''k'', None)])
   \<and> Metadata [(Some ''k'', None)] \<noteq> Metadata [(Some ''k'', Some [])]"
proof -
  have w: "wire (server_with (metadata_to_xml [(''k'', [])]))
     = Inr (Element (''{'' @ NAMESPACE @ ''}server'') [] None
              [Element (''{'' @ NAMESPACE @ ''}metadata'') [] None
                 [Element (''{'' @ NAMESPACE @ ''}meta'') [(''key'', Some ''k'')] None []]])"
    by (simp add: wire_server_with)
  have d: "dict_get (node_extra (to_node (answering 200 NoContent)
         (Element (''{'' @ NAMESPACE @ ''}server'') [] None
              [Element (''{'' @ NAMESPACE @ ''}metadata'') [] None
                 [Element (''{'' @ NAMESPACE @ ''}meta'') [(''key'', Some ''k'')] None []]]))) ''metadata''
       = Some (Metadata [(Some ''k'', None)])"
    by (simp add: to_node_def Let_def findall_ns_metadata_meta get_meta_dict_def el_get_def)
  from w d show ?thesis by simp
qed

section \<open>Limits\<close>

lemma absolute_limits_snoc:
  "absolute_limits (items @ [item])
     = setitem (absolute_limits items) (el_get item ''name'') (el_get item ''value'')"
  by (simp add: absolute_limits_def dict_update_def to_absolute_def)

lemma absolute_limits_get:
  "dict_get (absolute_limits items) k =
     (case filter (\<lambda>el. el_get el ''name'' = k) items of
        [] \<Rightarrow> None
      | x # xs \<Rightarrow> Some (el_get (last (x # xs)) ''value''))"
proof (induction items rule: rev_induct)
  case Nil
  show ?case by (simp add: absolute_limits_def)
next
  case (snoc item items)
  show ?case
  proof (cases "el_get item ''name'' = k")
    case True
    then show ?thesis
      by (cases "filter (\<lambda>el. el_get el ''name'' = k) items")
         (simp_all add: absolute_limits_snoc dict_get_setitem)
  next
    case False
    with snoc show ?thesis
      by (auto simp add: absolute_limits_snoc dict_get_setitem)
  qed
qed

text \<open>
  Claim C7. \<open>ex_limits\<close> sends the limits request and, when the decoded body of the
  answer is a tree, builds the absolute limits by storing the name and value of each
  absolute limit element in document order, a later element replacing the value of an
  earlier one of the same name. The value found under a name is therefore the value of
  the last element with that name: two elements named RAM with the values 10 and 20 give
  RAM = 20.
\<close>

theorem ex_limits_absolute_last_wins:
  "fst (ex_limits c)
     = c\<lparr>sent := sent c @ [\<lparr>action = ''/limits'', http_method = ''GET'', data = None\<rparr>]\<rparr>
   \<and> (\<forall>resp limits.
        respond c \<lparr>action = ''/limits'', http_method = ''GET'', data = None\<rparr> = Inr resp
        \<and> object resp = Tree limits
        \<longrightarrow> snd (ex_limits c) =
              Inr \<lparr>rate = map to_rate (findall_ns limits ''rate/limit''),
                   absolute = foldl (\<lambda>absolute item.
                                       setitem absolute (el_get item ''name'') (el_get item ''value''))
                                    [] (findall_ns limits ''absolute/limit'')\<rparr>
            \<and> (\<forall>k. dict_get (foldl (\<lambda>absolute item.
                                       setitem absolute (el_get item ''name'') (el_get item ''value''))
                                    [] (findall_ns limits ''absolute/limit'')) k =
                    (case filter (\<lambda>el. el_get el ''name'' = k) (findall_ns limits ''absolute/limit'') of
                       [] \<Rightarrow> None
                     | x # xs \<Rightarrow> Some (el_get (last (x # xs)) ''value''))))"
proof -
  have fo: "foldl (\<lambda>absolute item. setitem absolute (el_get item ''name'') (el_get item ''value'')) [] its
              = absolute_limits its" for its
    by (simp add: absolute_limits_def dict_update_def to_absolute_def)
  show ?thesis
    unfolding fo
    by (auto simp: ex_limits_def request_def Let_def on_tree_def absolute_limits_get
          split: sum.splits)
qed

theorem ex_limits_absolute_last_wins_witness:
  "snd (ex_limits (answering 200 (Tree limits_el)))
     = Inr \<lparr>rate = [], absolute = [(Some ''RAM'', Some ''20'')]\<rparr>
   \<and> dict_get [(Some ''RAM'', Some ''20'')] (Some ''RAM'') = Some (Some ''20'')
   \<and> snd (ex_limits (answering 200 (Tree limits_el2)))
     = Inr \<lparr>rate = [[(''verb'', Some ''POST''), (''value'', Some ''10'')]],
            absolute = [(Some ''maxTotalRAMSize'', Some ''51200''), (Some ''maxIPGroups'', Some ''50'')]\<rparr>
   \<and> sent (fst (ex_limits (answering 200 (Tree limits_el))))
     = [\<lparr>action = ''/limits'', http_method = ''GET'', data = None\<rparr>]"
proof -
  have resp: "respond (answering st obj) rq
                = Inr \<lparr>status = st, reason = [], headers = [], body = [], object = obj\<rparr>" for st obj rq
    by (simp add: answering_def)
  have a1: "findall_ns limits_el ''absolute/limit'' =
      [Element (''{'' @ NAMESPACE @ ''}limit'') [(''name'', Some ''RAM''), (''value'', Some ''10'')] None [],
       Element (''{'' @ NAMESPACE @ ''}limit'') [(''name'', Some ''RAM''), (''value'', Some ''20'')] None []]"
    by (simp add: findall_ns_absolute_limit limits_el_def)
  have r1: "findall_ns limits_el ''rate/limit'' = []"
    by (simp add: findall_ns_rate_limit limits_el_def)
  have a2: "findall_ns limits_el2 ''absolute/limit'' =
      [Element (''{'' @ NAMESPACE @ ''}limit'') [(''name'', Some ''maxTotalRAMSize''), (''value'', Some ''51200'')] None [],
       Element (''{'' @ NAMESPACE @ ''}limit'') [(''name'', Some ''maxIPGroups''), (''value'', Some ''50'')] None []]"
    by (simp add: findall_ns_absolute_limit limits_el2_def)
  have r2: "findall_ns limits_el2 ''rate/limit'' =
      [Element (''{'' @ NAMESPACE @ ''}limit'') [(''verb'', Some ''POST''), (''value'', Some ''10'')] None []]"
    by (simp add: findall_ns_rate_limit limits_el2_def)
  from ex_limits_absolute_last_wins [of "answering 200 (Tree limits_el)"]
    ex_limits_absolute_last_wins [of "answering 200 (Tree limits_el2)"]
  show ?thesis
    by (simp add: resp a1 r1 a2 r2 el_get_def to_rate_def) (simp add: answering_def)
qed

section \<open>Error interpretation\<close>

lemma truthy_texts:
  "map (\<lambda>err. case el_text err of None \<Rightarrow> [] | Some t \<Rightarrow> t)
       (filter (\<lambda>err. \<not> falsy (el_text err)) els)
     = filter (\<lambda>t. t \<noteq> []) (List.map_filter el_text els)"
  by (induction els) (auto simp: falsy_def List.map_filter_simps split: option.splits)

text \<open>
  Claim C5, as the code has it. When the error body parses as XML, the message is the
  status code, the reason and the non-empty texts of the root element and its descendants
  in document order, joined with a semicolon and a space. When the body does not parse as
  XML, error interpretation raises \<open>MalformedResponseError\<close> with the raw body inside it; the
  raw body does not become the message.
\<close>

theorem parse_error_message:
  "(\<forall>b. XML (body r) = Some b \<longrightarrow>
        parse_error XML r =
          Inr (str_int (status r) @ '' '' @ reason r @ '' ''
               @ join ''; '' (filter (\<lambda>t. t \<noteq> []) (List.map_filter el_text (getiterator b)))))
   \<and> (XML (body r) = None \<longrightarrow>
        parse_error XML r =
          Inl (MalformedResponseError ''Failed to parse XML'' (body r) ''RackspaceNodeDriver''))"
  by (simp add: parse_error_def truthy_texts)

theorem parse_error_message_witness:
  "parse_error XML_fixture
     \<lparr>status = 500, reason = ''Internal Server Error'', headers = [], body = fault_xml,
      object = NoContent\<rparr>
     = Inr ''500 Internal Server Error boom; try later''
   \<and> parse_error XML_fixture
       \<lparr>status = 503, reason = ''Service Unavailable'', headers = [], body = ''upstream timed out'',
        object = NoContent\<rparr>
       = Inl (MalformedResponseError ''Failed to parse XML'' ''upstream timed out'' ''RackspaceNodeDriver'')"
proof -
  let ?r1 = "\<lparr>status = 500, reason = ''Internal Server Error'', headers = [], body = fault_xml,
              object = NoContent\<rparr>"
  let ?r2 = "\<lparr>status = 503, reason = ''Service Unavailable'', headers = [],
              body = ''upstream timed out'', object = NoContent\<rparr>"
  have x1: "XML_fixture (body ?r1) = Some fault_el" by (simp add: XML_fixture_def)
  have x2: "XML_fixture (body ?r2) = None" by (simp add: XML_fixture_def fault_xml_def)
  from parse_error_message [of XML_fixture ?r1] parse_error_message [of XML_fixture ?r2] x1 x2
  show ?thesis
    by (simp add: fault_el_def List.map_filter_simps str_int_def)
qed

text \<open>
  The claim as the specification words it asks for the raw body as the message when the
  body is not XML. On the body \<^verbatim>\<open>upstream timed out\<close> the code raises instead.
\<close>

theorem parse_error_raw_body_counterexample:
  "parse_error XML_fixture
     \<lparr>status = 503, reason = ''Service Unavailable'', headers = [], body = ''upstream timed out'',
      object = NoContent\<rparr>
     = Inl (MalformedResponseError ''Failed to parse XML'' ''upstream timed out'' ''RackspaceNodeDriver'')
   \<and> parse_error XML_fixture
       \<lparr>status = 503, reason = ''Service Unavailable'', headers = [], body = ''upstream timed out'',
        object = NoContent\<rparr>
       \<noteq> Inr ''503 Service Unavailable upstream timed out''"
  by (simp add: parse_error_def XML_fixture_def fault_xml_def)

section \<open>The OpenStack response\<close>

text \<open>
  Claim C8. The header filter of \<open>has_content_type\<close> compares the lowered key, but the
  value is then read under the literal key \<^verbatim>\<open>content-type\<close>. A response whose header is
  spelled \<^verbatim>\<open>Content-Type\<close> and names a payload that is not XML should come back as the raw
  body; the lookup raises \<^verbatim>\<open>KeyError\<close> instead.
\<close>

theorem OpenStack_parse_body_header_case:
  "OpenStack_parse_body XML_fixture
     \<lparr>status = 200, reason = ''OK'', headers = [(''Content-Type'', ''text/plain'')],
      body = ''hello'', object = NoContent\<rparr>
     = Inl (KeyError ''content-type'')"
  by (simp add: OpenStack_parse_body_def has_content_type_def dict_of_items_def dict_update_def
        lower_def lower_char_def)

text \<open>So the call fails, and the raw body is not what it returns.\<close>

theorem OpenStack_parse_body_header_case_witness:
  "isl (OpenStack_parse_body XML_fixture
          \<lparr>status = 200, reason = ''OK'', headers = [(''Content-Type'', ''text/plain'')],
           body = ''hello'', object = NoContent\<rparr>)
   \<and> OpenStack_parse_body XML_fixture
       \<lparr>status = 200, reason = ''OK'', headers = [(''Content-Type'', ''text/plain'')],
        body = ''hello'', object = NoContent\<rparr>
       \<noteq> Inr (Raw ''hello'')"
  using OpenStack_parse_body_header_case by simp

text \<open>With the key in lower case the same response is returned unparsed, an XML content
  type is matched whatever its case, and a response with no such header or with an empty
  body is returned as it came.\<close>

lemma OpenStack_parse_body_lower_key:
  "OpenStack_parse_body XML_fixture
     \<lparr>status = 200, reason = ''OK'', headers = [(''content-type'', ''text/plain'')],
      body = ''hello'', object = NoContent\<rparr>
     = Inr (Raw ''hello'')"
  by (simp add: OpenStack_parse_body_def has_content_type_def dict_of_items_def dict_update_def
        lower_def lower_char_def py_find_def)

lemma OpenStack_parse_body_xml:
  "OpenStack_parse_body XML_fixture
     \<lparr>status = 200, reason = ''OK'', headers = [(''content-type'', ''Application/XML; charset=UTF-8'')],
      body = fault_xml, object = NoContent\<rparr>
     = Inr (Tree fault_el)"
  by (simp add: OpenStack_parse_body_def has_content_type_def dict_of_items_def dict_update_def
        lower_def lower_char_def py_find_def XML_fixture_def fault_xml_def)

lemma has_content_type_no_header:
  assumes "\<forall>kv \<in> set (headers r). lower (fst kv) \<noteq> ''content-type''"
  shows "has_content_type r ct = Inr False"
proof -
  from assms have "filter (\<lambda>(key, value). lower key = ''content-type'') (headers r) = []"
    by (auto simp: filter_empty_conv)
  then show ?thesis
    by (simp add: has_content_type_def dict_of_items_def dict_update_def)
qed

lemma OpenStack_parse_body_no_header:
  assumes "\<forall>kv \<in> set (headers r). lower (fst kv) \<noteq> ''content-type''"
  shows "OpenStack_parse_body XML r = Inr (Raw (body r))"
  by (simp add: OpenStack_parse_body_def has_content_type_no_header [OF assms])

lemma OpenStack_parse_body_empty_body:
  assumes "has_content_type r ''application/xml'' = Inr h" and "body r = []"
  shows "OpenStack_parse_body XML r = Inr (Raw (body r))"
  using assms by (simp add: OpenStack_parse_body_def)

lemma dict_get_filter:
  "(\<And>v. P (k, v)) \<Longrightarrow> dict_get (filter P d) k = dict_get d k"
  by (induction d) auto

lemma dict_get_Some_mem: "dict_get d k = Some v \<Longrightarrow> (k, v) \<in> set d"
  by (induction d) (auto split: if_splits)

lemma has_content_type_lower_key:
  assumes keys: "distinct (map fst (headers r))"
    and hdr: "dict_get (headers r) ''content-type'' = Some v"
  shows "has_content_type r ct = Inr (py_find (lower v) (lower ct) > - 1)"
proof -
  let ?P = "\<lambda>(key, value). lower key = ''content-type''"
  let ?F = "filter ?P (headers r)"
  have low: "lower ''content-type'' = ''content-type''"
    by (simp add: lower_def lower_char_def)
  from keys have "distinct (map fst ([] @ ?F))"
    by (simp add: distinct_map_filter)
  then have F: "dict_of_items ?F = ?F"
    using dict_update_distinct [of "[]" ?F] by (simp add: dict_of_items_def)
  from hdr have "(''content-type'', v) \<in> set (headers r)"
    by (rule dict_get_Some_mem)
  with low have ne: "?F \<noteq> []"
    by (auto simp: filter_empty_conv)
  from low have "dict_get ?F ''content-type'' = dict_get (headers r) ''content-type''"
    by (intro dict_get_filter) simp
  with hdr have "dict_get ?F ''content-type'' = Some v" by simp
  with F ne show ?thesis
    by (simp add: has_content_type_def)
qed

end
